theory Spec2Isabelle
  imports Complex_Main
begin

section \<open>Worldle: geodesic scoring and the round state machine\<close>

text \<open>
  The game keeps a static table of countries, draws a target from it and scores every
  guess by the great-circle distance (and, in two page variants, the compass direction)
  from the guessed country to the target.

  JavaScript numbers are modelled as real numbers. Comparisons, \<open>Math.floor\<close> and
  \<open>Math.round\<close> are exact on them; the trigonometric formulas are written with the
  exact functions, while the pages evaluate them in IEEE doubles, so the theorems below
  use of these formulas only what rounding does not change. Quantities that are
  integers in the source (array lengths, indices, the clock in milliseconds) are
  \<open>nat\<close> and \<open>int\<close>.
\<close>

subsection \<open>Data model\<close>

text \<open>The type \<open>Country\<close> of \<open>@/lib/countries\<close>, as the pages use it.\<close>

record Country =
  name :: string
  code :: string
  latitude :: real
  longitude :: real

subsection \<open>The geodesic functions of \<open>lib/utils\<close>\<close>

definition deg2rad :: "real \<Rightarrow> real" where
  "deg2rad deg = deg * (pi / 180)"

text \<open>
  \<open>Math.atan2(y, x)\<close> on real arguments: the angle of the point \<open>(x, y)\<close> in
  \<open>(-pi, pi]\<close>, and \<open>0\<close> at the origin, as ECMAScript defines \<open>Math.atan2(0, 0)\<close>.
\<close>

definition atan2 :: "real \<Rightarrow> real \<Rightarrow> real" where
  "atan2 y x =
     (if 0 < x then arctan (y / x)
      else if x < 0 then (if 0 \<le> y then arctan (y / x) + pi else arctan (y / x) - pi)
      else if 0 < y then pi / 2
      else if y < 0 then - (pi / 2)
      else 0)"

text \<open>
  \<open>getDistanceFromLatLonInKm\<close>, the haversine formula, in exact arithmetic. The pages
  compute it in doubles, whose value differs from the exact one by rounding (and is NaN
  when the rounded \<open>a\<close> exceeds 1). The theorems use one fact of it, that the
  distance from a point to itself is 0: there every step of the double computation is
  exact as well (\<open>x - x\<close>, \<open>sin 0\<close>, a product with 0, \<open>sqrt 0\<close>, \<open>sqrt 1\<close>,
  \<open>atan2(0, 1)\<close>).
\<close>

definition getDistanceFromLatLonInKm :: "real \<Rightarrow> real \<Rightarrow> real \<Rightarrow> real \<Rightarrow> real" where
  "getDistanceFromLatLonInKm lat1 lon1 lat2 lon2 =
     (let R = 6371;
          dLat = deg2rad (lat2 - lat1);
          dLon = deg2rad (lon2 - lon1);
          a = sin (dLat / 2) * sin (dLat / 2) +
              cos (deg2rad lat1) * cos (deg2rad lat2) *
              sin (dLon / 2) * sin (dLon / 2);
          c = 2 * atan2 (sqrt a) (sqrt (1 - a));
          d = R * c
      in d)"

text \<open>
  \<open>x % y\<close> on numbers takes the sign of the dividend (the quotient is truncated), and
  \<open>Math.round\<close> rounds halves upwards.
\<close>

definition js_rem :: "real \<Rightarrow> real \<Rightarrow> real" where
  "js_rem x y = x - y * of_int (if 0 \<le> x / y then \<lfloor>x / y\<rfloor> else \<lceil>x / y\<rceil>)"

definition Math_round :: "real \<Rightarrow> int" where
  "Math_round x = \<lfloor>x + 1 / 2\<rfloor>"

definition compass :: "string list" where
  "compass = [''N'', ''NE'', ''E'', ''SE'', ''S'', ''SW'', ''W'', ''NW'', ''N'']"

text \<open>Reading an array outside its bounds gives \<open>undefined\<close>: \<open>None\<close>.\<close>

definition lookup :: "'a list \<Rightarrow> int \<Rightarrow> 'a option" where
  "lookup xs i = (if 0 \<le> i \<and> i < int (length xs) then Some (xs ! nat i) else None)"

definition getDirection :: "real \<Rightarrow> real \<Rightarrow> real \<Rightarrow> real \<Rightarrow> string option" where
  "getDirection lat1 lon1 lat2 lon2 =
     (let dLon = deg2rad (lon2 - lon1);
          y = sin dLon * cos (deg2rad lat2);
          x = cos (deg2rad lat1) * sin (deg2rad lat2) -
              sin (deg2rad lat1) * cos (deg2rad lat2) * cos dLon;
          brng = atan2 y x;
          deg = (brng * 180) / pi;
          index = Math_round (js_rem (deg + 360) 360 / 45)
      in lookup compass index)"

subsection \<open>Feedback tiers\<close>

text \<open>
  \<open>getHotColdText\<close> returns one of five labels, an emoji followed by \<open>CORRECT!\<close>,
  \<open>HOT\<close>, \<open>WARM\<close>, \<open>COOL\<close> or \<open>COLD\<close>; the constructors stand for the labels.
\<close>

datatype Tier = Correct | Hot | Warm | Cool | Cold

definition getHotColdText :: "real \<Rightarrow> Tier" where
  "getHotColdText distance =
     (if distance = 0 then Correct
      else if distance < 1000 then Hot
      else if distance < 3000 then Warm
      else if distance < 8000 then Cool
      else Cold)"

subsection \<open>Hooks shared by the page variants\<close>

text \<open>
  A guess as \<open>app/page.tsx\<close> and \<open>app/page_overlay.tsx\<close> record it, and with the
  compass direction that the two direction-showing pages add. \<open>direction\<close> holds what
  \<open>getDirection\<close> returned, \<open>None\<close> for \<open>undefined\<close>.
\<close>

record Guess =
  country :: Country
  distance :: real

record DirGuess = Guess +
  direction :: "string option"

text \<open>
  The React hooks that every page variant declares and that the guess handlers read or
  write. The hooks that only feed the view (the autocomplete list and its cursor, the
  globe's points, arcs, polygons and camera) are left out: no handler below reads them.
\<close>

record 'g Hooks =
  targetCountry :: "Country option"
  inputValue :: string
  guesses :: "'g list"
  win :: bool
  showSuggestions :: bool
  error :: string

definition notFoundMessage :: string where
  "notFoundMessage = ''Country not found! Please select from the list.''"

definition duplicateMessage :: string where
  "duplicateMessage = ''You already guessed this country!''"

text \<open>
  \<open>String.prototype.toLowerCase\<close> on the letters \<open>A\<close> to \<open>Z\<close>; the other
  characters of an Isabelle string (bytes) are left as they are.
\<close>

definition toLowerChar :: "char \<Rightarrow> char" where
  "toLowerChar c =
     (case map_of (zip ''ABCDEFGHIJKLMNOPQRSTUVWXYZ'' ''abcdefghijklmnopqrstuvwxyz'') c of
        Some l \<Rightarrow> l
      | None \<Rightarrow> c)"

definition toLowerCase :: "string \<Rightarrow> string" where
  "toLowerCase str = map toLowerChar str"

text \<open>
  The candidate of \<open>submitGuess\<close>: the country picked from the autocomplete list when
  there is one, otherwise the first table entry whose name equals the typed text up to
  letter case (\<open>selectedCountry || countries.find(...)\<close>).
\<close>

definition guessedCountry :: "Country list \<Rightarrow> Country option \<Rightarrow> string \<Rightarrow> Country option" where
  "guessedCountry countries selectedCountry typed =
     (case selectedCountry of
        Some c \<Rightarrow> Some c
      | None \<Rightarrow> find (\<lambda>c. toLowerCase (name c) = toLowerCase typed) countries)"

text \<open>\<open>guesses.some((g) => g.country.code === guessedCountry.code)\<close>\<close>

definition alreadyGuessed :: "('m Guess_scheme) list \<Rightarrow> Country \<Rightarrow> bool" where
  "alreadyGuessed gs c = list_ex (\<lambda>g. code (country g) = code c) gs"

subsection \<open>The single-game page (\<open>src/unnamed/part_000\<close>)\<close>

record Game = "DirGuess Hooks" +
  gameOver :: bool

text \<open>\<open>u\<close> is the value of \<open>Math.random()\<close>.\<close>

definition startNewGame :: "Country list \<Rightarrow> real \<Rightarrow> Game \<Rightarrow> Game" where
  "startNewGame countries u s =
     (let random = lookup countries \<lfloor>u * real (length countries)\<rfloor>
      in s\<lparr>targetCountry := random, guesses := [], gameOver := False, win := False,
            inputValue := [], error := []\<rparr>)"

definition submitGuess_game :: "Country list \<Rightarrow> Country option \<Rightarrow> Game \<Rightarrow> Game" where
  "submitGuess_game countries selectedCountry s =
     (case targetCountry s of
        None \<Rightarrow> s
      | Some target \<Rightarrow>
          if gameOver s then s
          else
            (case guessedCountry countries selectedCountry (inputValue s) of
               None \<Rightarrow> s\<lparr>error := notFoundMessage\<rparr>
             | Some guessed \<Rightarrow>
                 if alreadyGuessed (guesses s) guessed then s\<lparr>error := duplicateMessage\<rparr>
                 else
                   (let dist = getDistanceFromLatLonInKm (latitude guessed) (longitude guessed)
                                 (latitude target) (longitude target);
                        dir = getDirection (latitude guessed) (longitude guessed)
                                 (latitude target) (longitude target);
                        newGuess = \<lparr>country = guessed, distance = dist, direction = dir\<rparr>;
                        s1 = s\<lparr>guesses := newGuess # guesses s, inputValue := [],
                               showSuggestions := False, error := []\<rparr>
                    in if code guessed = code target
                       then s1\<lparr>win := True, gameOver := True\<rparr>
                       else s1)))"

subsection \<open>The practice and daily page (\<open>src/app/page.tsx\<close>)\<close>

text \<open>
  \<open>RoundResult\<close> has the fields \<open>country\<close>, \<open>guesses\<close> and \<open>won\<close>; the first two
  carry a prefix here, since the guess and the hooks own these names already.
\<close>

record RoundResult =
  result_country :: Country
  result_guesses :: nat
  won :: bool

datatype GameMode = practice | daily

datatype GameScreen = screen_home | screen_setup | screen_playing | screen_results

record Session = "Guess Hooks" +
  roundOver :: bool
  gameScreen :: GameScreen
  gameMode :: "GameMode option"
  totalRounds :: nat
  currentRound :: nat
  roundResults :: "RoundResult list"

text \<open>The hooks' initial values (\<open>useState(...)\<close>).\<close>

definition initialSession :: Session where
  "initialSession =
     \<lparr>targetCountry = None, inputValue = [], guesses = [], win = False,
      showSuggestions = False, error = [],
      roundOver = False, gameScreen = screen_home, gameMode = None, totalRounds = 5,
      currentRound = 1, roundResults = []\<rparr>"

text \<open>
  \<open>getTodaysCountry\<close>: \<open>now\<close> is \<open>today.getTime()\<close>, the clock in milliseconds since
  the epoch. \<open>%\<close> takes the sign of the dividend and is NaN for a zero divisor, and
  indexing outside the table gives \<open>undefined\<close>.
\<close>

definition daysSinceEpoch :: "int \<Rightarrow> int" where
  "daysSinceEpoch now = now div (1000 * 60 * 60 * 24)"

definition js_rem_int :: "int \<Rightarrow> int \<Rightarrow> int option" where
  "js_rem_int x y =
     (if y = 0 then None
      else Some (if 0 \<le> x then x mod \<bar>y\<bar> else - ((- x) mod \<bar>y\<bar>)))"

definition getTodaysCountry :: "Country list \<Rightarrow> int \<Rightarrow> Country option" where
  "getTodaysCountry countries now =
     (case js_rem_int (daysSinceEpoch now) (int (length countries)) of
        None \<Rightarrow> None
      | Some index \<Rightarrow> lookup countries index)"

text \<open>
  The practice branch of \<open>startNewRound\<close> draws until the draw differs from the previous
  target. \<open>us\<close> are the successive values of \<open>Math.random()\<close>; the result is \<open>None\<close>
  when the loop has not ended after all of them, or when it reads \<open>random.code\<close> of an
  undefined draw (a TypeError), and otherwise the value of \<open>random\<close>.
\<close>

fun drawPractice :: "Country list \<Rightarrow> Country option \<Rightarrow> real list \<Rightarrow> Country option option" where
  "drawPractice countries target [] = None"
| "drawPractice countries target (u # us) =
     (let random = lookup countries \<lfloor>u * real (length countries)\<rfloor>
      in case target of
           None \<Rightarrow> Some random
         | Some t \<Rightarrow>
             (case random of
                None \<Rightarrow> None
              | Some r \<Rightarrow>
                  if code r = code t \<and> 1 < length countries
                  then drawPractice countries target us
                  else Some random))"

definition startNewRound ::
    "Country list \<Rightarrow> int \<Rightarrow> real list \<Rightarrow> GameMode option \<Rightarrow> Session \<Rightarrow> Session option" where
  "startNewRound countries now us mode s =
     (let currentMode = (case mode of Some m \<Rightarrow> Some m | None \<Rightarrow> gameMode s)
      in case (if currentMode = Some daily then Some (getTodaysCountry countries now)
               else drawPractice countries (targetCountry s) us) of
           None \<Rightarrow> None
         | Some random \<Rightarrow>
             Some (s\<lparr>targetCountry := random, guesses := [], roundOver := False,
                      win := False, inputValue := [], error := []\<rparr>))"

definition startGame ::
    "Country list \<Rightarrow> int \<Rightarrow> real list \<Rightarrow> GameMode option \<Rightarrow> nat \<Rightarrow> Session \<Rightarrow> Session option" where
  "startGame countries now us mode rounds s =
     map_option
       (\<lambda>s'. s'\<lparr>gameMode := mode, totalRounds := rounds, currentRound := 1,
                 roundResults := [], gameScreen := screen_playing\<rparr>)
       (startNewRound countries now us mode s)"

definition submitGuess :: "Country list \<Rightarrow> Country option \<Rightarrow> Session \<Rightarrow> Session" where
  "submitGuess countries selectedCountry s =
     (case targetCountry s of
        None \<Rightarrow> s
      | Some target \<Rightarrow>
          if roundOver s then s
          else
            (case guessedCountry countries selectedCountry (inputValue s) of
               None \<Rightarrow> s\<lparr>error := notFoundMessage\<rparr>
             | Some guessed \<Rightarrow>
                 if alreadyGuessed (guesses s) guessed then s\<lparr>error := duplicateMessage\<rparr>
                 else
                   (let dist = getDistanceFromLatLonInKm (latitude guessed) (longitude guessed)
                                 (latitude target) (longitude target);
                        newGuess = \<lparr>country = guessed, distance = dist\<rparr>;
                        updatedGuesses = newGuess # guesses s;
                        s1 = s\<lparr>guesses := updatedGuesses, inputValue := [],
                               showSuggestions := False, error := []\<rparr>
                    in if code guessed = code target
                       then s1\<lparr>win := True, roundOver := True,
                               roundResults := roundResults s @
                                 [\<lparr>result_country = target,
                                   result_guesses = length updatedGuesses, won = True\<rparr>]\<rparr>
                       else s1)))"

definition skipRound :: "Session \<Rightarrow> Session" where
  "skipRound s =
     (case targetCountry s of
        None \<Rightarrow> s
      | Some target \<Rightarrow>
          if roundOver s then s
          else s\<lparr>roundOver := True,
                 roundResults := roundResults s @
                   [\<lparr>result_country = target, result_guesses = 0, won = False\<rparr>]\<rparr>)"

definition nextRound :: "Country list \<Rightarrow> int \<Rightarrow> real list \<Rightarrow> Session \<Rightarrow> Session option" where
  "nextRound countries now us s =
     (if currentRound s < totalRounds s
      then map_option (\<lambda>s'. s'\<lparr>currentRound := currentRound s + 1\<rparr>)
             (startNewRound countries now us None s)
      else Some (s\<lparr>gameScreen := screen_results\<rparr>))"

definition returnToHome :: "Session \<Rightarrow> Session" where
  "returnToHome s =
     s\<lparr>gameScreen := screen_home, gameMode := None, currentRound := 1, roundResults := [],
       targetCountry := None\<rparr>"

subsection \<open>Session statistics\<close>

text \<open>
  \<open>x.toFixed(1)\<close> is the decimal string of \<open>n / 10\<close> for the integer \<open>n\<close> closest to
  \<open>10 * x\<close>, the larger one when two are equally close, computed on the absolute value
  with the sign put in front. The string is modelled by the number of tenths it shows.
\<close>

definition toFixed1 :: "real \<Rightarrow> int" where
  "toFixed1 x = (if x < 0 then - \<lfloor>10 * (- x) + 1 / 2\<rfloor> else \<lfloor>10 * x + 1 / 2\<rfloor>)"

text \<open>
  \<open>calculateAverageScore\<close> returns the number \<open>0\<close> or the string of \<open>toFixed(1)\<close>.
\<close>

datatype Score = Number real | Tenths int

definition calculateAverageScore :: "RoundResult list \<Rightarrow> Score" where
  "calculateAverageScore results =
     (let wonRounds = filter won results
      in if length wonRounds = 0 then Number 0
         else
           (let totalGuesses = foldl (\<lambda>sum r. sum + result_guesses r) 0 wonRounds
            in Tenths (toFixed1 (real totalGuesses / real (length wonRounds)))))"

text \<open>The results screen's \<open>wonRounds\<close>.\<close>

definition wonRounds :: "RoundResult list \<Rightarrow> nat" where
  "wonRounds results = length (filter won results)"

fun scoreValue :: "Score \<Rightarrow> real" where
  "scoreValue (Number x) = x"
| "scoreValue (Tenths n) = real_of_int n / 10"

subsection \<open>Runs of the pages\<close>

text \<open>
  Typing into the input box sets \<open>inputValue\<close>; the effect that depends on it then shows
  the suggestions exactly when the text is not empty.
\<close>

definition setInputValue :: "string \<Rightarrow> ('g, 'm) Hooks_scheme \<Rightarrow> ('g, 'm) Hooks_scheme" where
  "setInputValue v s =
     (if v = inputValue s then s else s\<lparr>inputValue := v, showSuggestions := (v \<noteq> [])\<rparr>)"

text \<open>
  The user actions on \<open>page.tsx\<close>, with the clock and the random draws that the handler
  reads: the buttons and the form, typing, the Escape key, the timer that clears the
  error message, and the buttons of the home and the set-up screens.
\<close>

datatype Event =
    StartGame "GameMode option" nat int "real list"
  | SubmitGuess "Country option"
  | SkipRound
  | NextRound int "real list"
  | ReturnToHome
  | TypeInput string
  | HideSuggestions
  | ErrorTimeout
  | ShowScreen GameScreen
  | ChooseRounds nat

fun step :: "Country list \<Rightarrow> Event \<Rightarrow> Session \<Rightarrow> Session option" where
  "step countries (StartGame mode rounds now us) s = startGame countries now us mode rounds s"
| "step countries (SubmitGuess selectedCountry) s = Some (submitGuess countries selectedCountry s)"
| "step countries SkipRound s = Some (skipRound s)"
| "step countries (NextRound now us) s = nextRound countries now us s"
| "step countries ReturnToHome s = Some (returnToHome s)"
| "step countries (TypeInput v) s = Some (setInputValue v s)"
| "step countries HideSuggestions s = Some (s\<lparr>showSuggestions := False\<rparr>)"
| "step countries ErrorTimeout s = Some (s\<lparr>error := []\<rparr>)"
| "step countries (ShowScreen scr) s = Some (s\<lparr>gameScreen := scr\<rparr>)"
| "step countries (ChooseRounds n) s = Some (s\<lparr>totalRounds := n\<rparr>)"

text \<open>A run is \<open>None\<close> when one of its handlers does not return.\<close>

fun run :: "Country list \<Rightarrow> Session \<Rightarrow> Event list \<Rightarrow> Session option" where
  "run countries s [] = Some s"
| "run countries s (e # es) =
     (case step countries e s of None \<Rightarrow> None | Some s' \<Rightarrow> run countries s' es)"

text \<open>The single-game page starts a game when it is mounted.\<close>

datatype GameEvent =
    NewGame real
  | GuessEvent "Country option"
  | GameTypeInput string
  | GameHideSuggestions
  | GameErrorTimeout

definition initialGame :: Game where
  "initialGame =
     \<lparr>targetCountry = None, inputValue = [], guesses = [], win = False,
      showSuggestions = False, error = [], gameOver = False\<rparr>"

fun step_game :: "Country list \<Rightarrow> GameEvent \<Rightarrow> Game \<Rightarrow> Game" where
  "step_game countries (NewGame u) s = startNewGame countries u s"
| "step_game countries (GuessEvent selectedCountry) s = submitGuess_game countries selectedCountry s"
| "step_game countries (GameTypeInput v) s = setInputValue v s"
| "step_game countries GameHideSuggestions s = s\<lparr>showSuggestions := False\<rparr>"
| "step_game countries GameErrorTimeout s = s\<lparr>error := []\<rparr>"

definition run_game :: "Country list \<Rightarrow> Game \<Rightarrow> GameEvent list \<Rightarrow> Game" where
  "run_game countries s es = foldl (\<lambda>s e. step_game countries e s) s es"

text \<open>The country codes of a guess list, most recent first.\<close>

definition guessedCodes :: "('m Guess_scheme) list \<Rightarrow> string list" where
  "guessedCodes gs = map (\<lambda>g. code (country g)) gs"

text \<open>
  What every reachable state of a page satisfies: no country code occurs twice among the
  guesses, and a round that is won is over.
\<close>

definition round_inv :: "Session \<Rightarrow> bool" where
  "round_inv s \<longleftrightarrow> distinct (guessedCodes (guesses s)) \<and> (win s \<longrightarrow> roundOver s)"

definition game_inv :: "Game \<Rightarrow> bool" where
  "game_inv g \<longleftrightarrow> distinct (guessedCodes (guesses g)) \<and> (win g \<longrightarrow> gameOver g)"


subsection \<open>Sets of events\<close>

text \<open>The events that submit a guess or skip the round.\<close>

fun guess_or_skip :: "Event \<Rightarrow> bool" where
  "guess_or_skip (SubmitGuess selectedCountry) = True"
| "guess_or_skip SkipRound = True"
| "guess_or_skip e = False"

fun is_guess :: "GameEvent \<Rightarrow> bool" where
  "is_guess (GuessEvent selectedCountry) = True"
| "is_guess e = False"

subsection \<open>Example data\<close>

text \<open>
  The country table is not part of the pages; the handlers take it as a parameter. The
  examples use two countries with rounded coordinates, two table entries that have
  different codes and the same coordinates, and a round and a game whose target is the
  first country.
\<close>

definition france :: Country where
  "france = \<lparr>name = ''France'', code = ''FR'', latitude = 46, longitude = 2\<rparr>"

definition germany :: Country where
  "germany = \<lparr>name = ''Germany'', code = ''DE'', latitude = 51, longitude = 9\<rparr>"

definition entry_a :: Country where
  "entry_a = \<lparr>name = ''Alpha'', code = ''AA'', latitude = 10, longitude = 20\<rparr>"

definition entry_b :: Country where
  "entry_b = \<lparr>name = ''Beta'', code = ''BB'', latitude = 10, longitude = 20\<rparr>"

definition demo_round :: Session where
  "demo_round =
     initialSession\<lparr>targetCountry := Some france, gameMode := Some daily, totalRounds := 1,
                    gameScreen := screen_playing\<rparr>"

definition demo_game :: Game where
  "demo_game = initialGame\<lparr>targetCountry := Some france\<rparr>"

section \<open>Properties of the geodesic functions\<close>

lemma atan2_range: "- pi < atan2 y x \<and> atan2 y x \<le> pi"
proof -
  have b: "- (pi / 2) < arctan (y / x) \<and> arctan (y / x) < pi / 2" by (rule arctan_bounded)
  have neg: "x < 0 \<Longrightarrow> 0 \<le> y \<Longrightarrow> arctan (y / x) \<le> 0"
    by (simp add: arctan_le_zero_iff divide_nonneg_neg)
  have pos: "x < 0 \<Longrightarrow> y < 0 \<Longrightarrow> 0 < arctan (y / x)"
    by (simp add: zero_less_arctan_iff divide_neg_neg)
  show ?thesis using b neg pos pi_gt_zero by (auto simp add: atan2_def)
qed

lemma distance_same: "getDistanceFromLatLonInKm lat lon lat lon = 0"
  by (simp add: getDistanceFromLatLonInKm_def Let_def deg2rad_def atan2_def)

lemma js_rem_range:
  assumes "0 \<le> x" "0 < y"
  shows "0 \<le> js_rem x y \<and> js_rem x y < y"
proof -
  have q: "0 \<le> x / y" using assms by simp
  have r: "js_rem x y = x - y * of_int \<lfloor>x / y\<rfloor>" using q by (simp add: js_rem_def)
  have "of_int \<lfloor>x / y\<rfloor> \<le> x / y" by simp
  then have "of_int \<lfloor>x / y\<rfloor> * y \<le> x" using assms(2) by (simp only: pos_le_divide_eq)
  then have lo: "y * of_int \<lfloor>x / y\<rfloor> \<le> x" by (simp only: mult.commute)
  have "x / y < of_int \<lfloor>x / y\<rfloor> + 1" by linarith
  then have "x < (of_int \<lfloor>x / y\<rfloor> + 1) * y" using assms(2) by (simp only: pos_divide_less_eq)
  then have hi: "x < y * of_int \<lfloor>x / y\<rfloor> + y" by (simp add: algebra_simps)
  show ?thesis using lo hi by (simp add: r)
qed

lemma compass_lookup:
  assumes "0 \<le> i" "i \<le> 8"
  shows "lookup compass i \<in> {Some ''N'', Some ''NE'', Some ''E'', Some ''SE'', Some ''S'',
           Some ''SW'', Some ''W'', Some ''NW''}"
proof -
  from assms have "i = 0 \<or> i = 1 \<or> i = 2 \<or> i = 3 \<or> i = 4 \<or> i = 5 \<or> i = 6 \<or> i = 7 \<or> i = 8"
    by presburger
  then show ?thesis by (auto simp add: lookup_def compass_def)
qed

lemma getDirection_label:
  "getDirection lat1 lon1 lat2 lon2 \<in> {Some ''N'', Some ''NE'', Some ''E'', Some ''SE'',
      Some ''S'', Some ''SW'', Some ''W'', Some ''NW''}"
proof -
  define brng where "brng = atan2 (sin (deg2rad (lon2 - lon1)) * cos (deg2rad lat2))
     (cos (deg2rad lat1) * sin (deg2rad lat2) -
      sin (deg2rad lat1) * cos (deg2rad lat2) * cos (deg2rad (lon2 - lon1)))"
  define deg where "deg = (brng * 180) / pi"
  define r where "r = js_rem (deg + 360) 360"
  have b: "- pi < brng \<and> brng \<le> pi" unfolding brng_def by (rule atan2_range)
  have d: "- 180 < deg \<and> deg \<le> 180"
    using b pi_gt_zero by (simp add: deg_def field_simps)
  have rr: "0 \<le> r \<and> r < 360" unfolding r_def using d by (intro js_rem_range) auto
  have i: "0 \<le> Math_round (r / 45) \<and> Math_round (r / 45) \<le> 8"
    using rr unfolding Math_round_def by (simp add: le_floor_iff floor_le_iff)
  have "getDirection lat1 lon1 lat2 lon2 = lookup compass (Math_round (r / 45))"
    by (simp add: getDirection_def Let_def r_def deg_def brng_def)
  then show ?thesis using compass_lookup i by simp
qed

lemma getDirection_same: "getDirection lat lon lat lon = Some ''N''"
  by (simp add: getDirection_def Let_def deg2rad_def atan2_def js_rem_def Math_round_def
      lookup_def compass_def)

text \<open>
  Claim C5. \<open>getDirection\<close> returns one of the eight compass labels for all arguments: the
  index it computes is between 0 and 8, inside the nine-entry table whose last entry
  repeats \<open>N\<close>, so the read is never out of bounds. For two identical points both
  arguments of \<open>Math.atan2\<close> are 0, the angle is 0 and the label is \<open>N\<close>.
\<close>

theorem direction_is_compass_label:
  "getDirection lat1 lon1 lat2 lon2 \<in>
     {Some ''N'', Some ''NE'', Some ''E'', Some ''SE'', Some ''S'', Some ''SW'', Some ''W'',
      Some ''NW''}
   \<and> getDirection lat1 lon1 lat1 lon1 = Some ''N''"
  using getDirection_label[of lat1 lon1 lat2 lon2] getDirection_same[of lat1 lon1] by simp

section \<open>Properties of the feedback tiers\<close>

text \<open>
  Claim C2. For a distance \<open>d \<ge> 0\<close>, \<open>getHotColdText\<close> answers \<open>Correct\<close> exactly for
  \<open>d = 0\<close>, \<open>Hot\<close> exactly for \<open>0 < d < 1000\<close>, \<open>Warm\<close> exactly for
  \<open>1000 \<le> d < 3000\<close>, \<open>Cool\<close> exactly for \<open>3000 \<le> d < 8000\<close> and \<open>Cold\<close> exactly for
  \<open>d \<ge> 8000\<close>; 999 is hot, 1000 is warm, and 7999 is cool, not warm.
\<close>

theorem feedback_tier_thresholds:
  assumes "0 \<le> d"
  shows "(getHotColdText d = Correct \<longleftrightarrow> d = 0)
       \<and> (getHotColdText d = Hot \<longleftrightarrow> 0 < d \<and> d < 1000)
       \<and> (getHotColdText d = Warm \<longleftrightarrow> 1000 \<le> d \<and> d < 3000)
       \<and> (getHotColdText d = Cool \<longleftrightarrow> 3000 \<le> d \<and> d < 8000)
       \<and> (getHotColdText d = Cold \<longleftrightarrow> 8000 \<le> d)
       \<and> getHotColdText 0 = Correct
       \<and> getHotColdText 999 = Hot
       \<and> getHotColdText 1000 = Warm
       \<and> getHotColdText 7999 = Cool
       \<and> getHotColdText 7999 \<noteq> Warm"
  using assms by (auto simp add: getHotColdText_def)

text \<open>The theorem at \<open>d = 7999\<close>, which is non-negative and cool.\<close>

theorem feedback_tier_thresholds_witness:
  "(0 :: real) \<le> 7999 \<and> getHotColdText 7999 = Cool \<and> getHotColdText 7999 \<noteq> Warm
   \<and> getHotColdText 7999 \<noteq> Hot \<and> getHotColdText 7999 \<noteq> Cold"
proof -
  have h: "(0 :: real) \<le> 7999" by simp
  show ?thesis using feedback_tier_thresholds[OF h] by simp
qed

section \<open>Properties of the handlers\<close>

lemma alreadyGuessed_iff: "alreadyGuessed gs c \<longleftrightarrow> code c \<in> set (guessedCodes gs)"
  by (force simp add: alreadyGuessed_def guessedCodes_def list_ex_iff)

lemma submitGuess_terminal: "roundOver s \<Longrightarrow> submitGuess countries sel s = s"
  by (simp add: submitGuess_def split: option.split)

lemma skipRound_terminal: "roundOver s \<Longrightarrow> skipRound s = s"
  by (simp add: skipRound_def split: option.split)

lemma submitGuess_game_terminal: "gameOver g \<Longrightarrow> submitGuess_game countries sel g = g"
  by (simp add: submitGuess_game_def split: option.split)

lemma submitGuess_not_found:
  assumes "targetCountry s = Some t" "\<not> roundOver s"
    "guessedCountry countries sel (inputValue s) = None"
  shows "submitGuess countries sel s = s\<lparr>error := notFoundMessage\<rparr>"
  using assms by (simp add: submitGuess_def)

lemma submitGuess_duplicate:
  assumes "targetCountry s = Some t" "\<not> roundOver s"
    "guessedCountry countries sel (inputValue s) = Some c" "alreadyGuessed (guesses s) c"
  shows "submitGuess countries sel s = s\<lparr>error := duplicateMessage\<rparr>"
  using assms by (simp add: submitGuess_def)

lemma submitGuess_accepted:
  assumes "targetCountry s = Some t" "\<not> roundOver s"
    "guessedCountry countries sel (inputValue s) = Some c" "\<not> alreadyGuessed (guesses s) c"
  shows "submitGuess countries sel s =
    (let s1 = s\<lparr>guesses := \<lparr>country = c, distance = getDistanceFromLatLonInKm (latitude c)
                     (longitude c) (latitude t) (longitude t)\<rparr> # guesses s,
                  inputValue := [], showSuggestions := False, error := []\<rparr>
     in if code c = code t
        then s1\<lparr>win := True, roundOver := True,
                roundResults := roundResults s @
                  [\<lparr>result_country = t, result_guesses = Suc (length (guesses s)), won = True\<rparr>]\<rparr>
        else s1)"
  using assms by (simp add: submitGuess_def Let_def)

lemma submitGuess_game_not_found:
  assumes "targetCountry g = Some t" "\<not> gameOver g"
    "guessedCountry countries sel (inputValue g) = None"
  shows "submitGuess_game countries sel g = g\<lparr>error := notFoundMessage\<rparr>"
  using assms by (simp add: submitGuess_game_def)

lemma submitGuess_game_duplicate:
  assumes "targetCountry g = Some t" "\<not> gameOver g"
    "guessedCountry countries sel (inputValue g) = Some c" "alreadyGuessed (guesses g) c"
  shows "submitGuess_game countries sel g = g\<lparr>error := duplicateMessage\<rparr>"
  using assms by (simp add: submitGuess_game_def)

lemma submitGuess_game_accepted:
  assumes "targetCountry g = Some t" "\<not> gameOver g"
    "guessedCountry countries sel (inputValue g) = Some c" "\<not> alreadyGuessed (guesses g) c"
  shows "submitGuess_game countries sel g =
    (let s1 = g\<lparr>guesses := \<lparr>country = c, distance = getDistanceFromLatLonInKm (latitude c)
                     (longitude c) (latitude t) (longitude t),
                   direction = getDirection (latitude c) (longitude c) (latitude t) (longitude t)\<rparr>
                   # guesses g,
                  inputValue := [], showSuggestions := False, error := []\<rparr>
     in if code c = code t then s1\<lparr>win := True, gameOver := True\<rparr> else s1)"
  using assms by (simp add: submitGuess_game_def Let_def)

lemma submitGuess_inv: "round_inv s \<Longrightarrow> round_inv (submitGuess countries sel s)"
  by (auto simp add: round_inv_def submitGuess_def Let_def alreadyGuessed_iff guessedCodes_def
      split: option.split)

lemma startNewRound_inv: "startNewRound countries now us mode s = Some s' \<Longrightarrow> round_inv s'"
  by (auto simp add: round_inv_def startNewRound_def Let_def guessedCodes_def split: option.splits)

lemma step_inv: "round_inv s \<Longrightarrow> step countries e s = Some s' \<Longrightarrow> round_inv s'"
proof (cases e)
  case (StartGame mode rounds now us)
  assume "step countries e s = Some s'"
  with StartGame obtain s1 where "startNewRound countries now us mode s = Some s1"
    and "s' = s1\<lparr>gameMode := mode, totalRounds := rounds, currentRound := 1,
                 roundResults := [], gameScreen := screen_playing\<rparr>"
    by (auto simp add: startGame_def)
  then show ?thesis using startNewRound_inv[of countries now us mode s s1]
    by (simp add: round_inv_def)
next
  case (SubmitGuess sel)
  assume "round_inv s" "step countries e s = Some s'"
  then show ?thesis using SubmitGuess submitGuess_inv[of s countries sel] by auto
next
  case SkipRound
  assume "round_inv s" "step countries e s = Some s'"
  then show ?thesis using SkipRound
    by (auto simp add: round_inv_def skipRound_def split: option.splits)
next
  case (NextRound now us)
  assume i: "round_inv s" and st: "step countries e s = Some s'"
  show ?thesis
  proof (cases "currentRound s < totalRounds s")
    case True
    with st NextRound obtain s1 where "startNewRound countries now us None s = Some s1"
      and "s' = s1\<lparr>currentRound := currentRound s + 1\<rparr>"
      by (auto simp add: nextRound_def)
    then show ?thesis using startNewRound_inv[of countries now us None s s1]
      by (simp add: round_inv_def)
  next
    case False
    with st NextRound i show ?thesis by (auto simp add: nextRound_def round_inv_def)
  qed
next
  case ReturnToHome
  assume "round_inv s" "step countries e s = Some s'"
  then show ?thesis using ReturnToHome by (auto simp add: round_inv_def returnToHome_def)
next
  case (TypeInput v)
  assume "round_inv s" "step countries e s = Some s'"
  then show ?thesis using TypeInput
    by (auto simp add: round_inv_def setInputValue_def split: if_splits)
next
  case HideSuggestions
  assume "round_inv s" "step countries e s = Some s'"
  then show ?thesis using HideSuggestions by (auto simp add: round_inv_def)
next
  case ErrorTimeout
  assume "round_inv s" "step countries e s = Some s'"
  then show ?thesis using ErrorTimeout by (auto simp add: round_inv_def)
next
  case (ShowScreen scr)
  assume "round_inv s" "step countries e s = Some s'"
  then show ?thesis using ShowScreen by (auto simp add: round_inv_def)
next
  case (ChooseRounds n)
  assume "round_inv s" "step countries e s = Some s'"
  then show ?thesis using ChooseRounds by (auto simp add: round_inv_def)
qed

lemma run_inv: "round_inv s \<Longrightarrow> run countries s es = Some s' \<Longrightarrow> round_inv s'"
proof (induction es arbitrary: s)
  case Nil
  then show ?case by simp
next
  case (Cons e es)
  then show ?case by (auto split: option.splits dest: step_inv)
qed

lemma initial_inv: "round_inv initialSession"
  by (simp add: round_inv_def initialSession_def guessedCodes_def)

lemma step_game_inv: "game_inv g \<Longrightarrow> game_inv (step_game countries e g)"
  by (cases e)
     (auto simp add: game_inv_def submitGuess_game_def startNewGame_def setInputValue_def Let_def
        alreadyGuessed_iff guessedCodes_def split: option.split)

lemma run_game_inv: "game_inv g \<Longrightarrow> game_inv (run_game countries g es)"
  unfolding run_game_def
  by (induction es arbitrary: g) (simp_all add: step_game_inv)

lemma initial_game_inv: "game_inv initialGame"
  by (simp add: game_inv_def initialGame_def guessedCodes_def)

lemma terminal_run:
  "roundOver s \<Longrightarrow> list_all guess_or_skip es \<Longrightarrow> run countries s es = Some s"
proof (induction es)
  case Nil
  then show ?case by simp
next
  case (Cons e es)
  then show ?case
    by (cases e) (simp_all add: submitGuess_terminal skipRound_terminal)
qed

lemma terminal_run_game:
  "gameOver g \<Longrightarrow> list_all is_guess ges \<Longrightarrow> run_game countries g ges = g"
  unfolding run_game_def
proof (induction ges)
  case Nil
  then show ?case by simp
next
  case (Cons e ges)
  then show ?case
    by (cases e) (simp_all add: submitGuess_game_terminal)
qed

lemma messages_differ:
  "notFoundMessage \<noteq> duplicateMessage" "notFoundMessage \<noteq> []"
  by (simp_all add: notFoundMessage_def duplicateMessage_def)

lemma guessedCountry_typed:
  "guessedCountry countries None typed =
     find (\<lambda>c. toLowerCase (name c) = toLowerCase typed) countries"
  by (simp add: guessedCountry_def)

lemma guessedCountry_none_iff:
  "guessedCountry countries None typed = None \<longleftrightarrow>
     (\<forall>c\<in>set countries. toLowerCase (name c) \<noteq> toLowerCase typed)"
  by (auto simp add: guessedCountry_def find_None_iff)

lemma submitGuess_error_not_found:
  assumes "targetCountry s = Some t" "\<not> roundOver s"
  shows "error (submitGuess countries sel s) = notFoundMessage \<longleftrightarrow>
           guessedCountry countries sel (inputValue s) = None"
  using assms messages_differ
  by (auto simp add: submitGuess_def Let_def split: option.splits)

lemma submitGuess_game_error_not_found:
  assumes "targetCountry g = Some t" "\<not> gameOver g"
  shows "error (submitGuess_game countries sel g) = notFoundMessage \<longleftrightarrow>
           guessedCountry countries sel (inputValue g) = None"
  using assms messages_differ
  by (auto simp add: submitGuess_game_def Let_def split: option.splits)

lemma unique_code_same_entry:
  assumes "distinct (map code countries)" "c \<in> set countries" "t \<in> set countries"
  shows "code c = code t \<longleftrightarrow> c = t"
  using assms by (auto simp add: distinct_map inj_on_def)

lemma demo_round_facts:
  "targetCountry demo_round = Some france" "\<not> roundOver demo_round" "\<not> win demo_round"
  "guesses demo_round = []" "inputValue demo_round = []" "roundResults demo_round = []"
  by (simp_all add: demo_round_def initialSession_def)

lemma demo_game_facts:
  "targetCountry demo_game = Some france" "\<not> gameOver demo_game" "\<not> win demo_game"
  "guesses demo_game = []" "inputValue demo_game = []"
  by (simp_all add: demo_game_def initialGame_def)

lemma demo_round_run:
  "run [france, germany] initialSession [StartGame (Some daily) 1 0 []] = Some demo_round"
  by (simp add: startGame_def startNewRound_def getTodaysCountry_def daysSinceEpoch_def
      js_rem_int_def lookup_def initialSession_def demo_round_def)

section \<open>The claims about guesses\<close>

text \<open>
  Claim C1, as amended. In a round that is in progress, a guess that resolves to a country
  and is not a duplicate is put in front of the guess list with its distance to the
  target, and the round becomes won, and over, exactly when the code of the guessed
  country equals the code of the target. When the guessed country is the target entry
  its recorded distance is 0, and in a table with unique codes the codes are equal only
  for the same entry; if moreover the guessed entry does not lie at distance 0 from a
  target with another code, the round becomes won exactly when the recorded distance
  is 0. The same holds on the single-game page, where the guess also carries the
  direction.
\<close>

theorem guess_wins_iff_target_code:
  "(targetCountry s = Some t \<and> \<not> roundOver s \<and> \<not> win s
      \<and> guessedCountry countries sel (inputValue s) = Some c
      \<and> \<not> alreadyGuessed (guesses s) c \<longrightarrow>
        guesses (submitGuess countries sel s) =
          \<lparr>country = c,
            distance = getDistanceFromLatLonInKm (latitude c) (longitude c)
                         (latitude t) (longitude t)\<rparr> # guesses s
      \<and> (roundOver (submitGuess countries sel s) \<longleftrightarrow> code c = code t)
      \<and> (win (submitGuess countries sel s) \<longleftrightarrow> code c = code t)
      \<and> (c = t \<longrightarrow> distance (hd (guesses (submitGuess countries sel s))) = 0)
      \<and> (distinct (map code countries) \<and> c \<in> set countries \<and> t \<in> set countries
           \<and> (code c \<noteq> code t \<longrightarrow>
                getDistanceFromLatLonInKm (latitude c) (longitude c)
                  (latitude t) (longitude t) \<noteq> 0) \<longrightarrow>
            (win (submitGuess countries sel s) \<longleftrightarrow>
               distance (hd (guesses (submitGuess countries sel s))) = 0)))
   \<and> (targetCountry g = Some t \<and> \<not> gameOver g \<and> \<not> win g
      \<and> guessedCountry countries sel (inputValue g) = Some c
      \<and> \<not> alreadyGuessed (guesses g) c \<longrightarrow>
        guesses (submitGuess_game countries sel g) =
          \<lparr>country = c,
            distance = getDistanceFromLatLonInKm (latitude c) (longitude c)
                         (latitude t) (longitude t),
            direction = getDirection (latitude c) (longitude c) (latitude t) (longitude t)\<rparr>
          # guesses g
      \<and> (gameOver (submitGuess_game countries sel g) \<longleftrightarrow> code c = code t)
      \<and> (win (submitGuess_game countries sel g) \<longleftrightarrow> code c = code t)
      \<and> (c = t \<longrightarrow> distance (hd (guesses (submitGuess_game countries sel g))) = 0)
      \<and> (distinct (map code countries) \<and> c \<in> set countries \<and> t \<in> set countries
           \<and> (code c \<noteq> code t \<longrightarrow>
                getDistanceFromLatLonInKm (latitude c) (longitude c)
                  (latitude t) (longitude t) \<noteq> 0) \<longrightarrow>
            (win (submitGuess_game countries sel g) \<longleftrightarrow>
               distance (hd (guesses (submitGuess_game countries sel g))) = 0)))
   \<and> (distinct (map code countries) \<and> c \<in> set countries \<and> t \<in> set countries \<longrightarrow>
        (code c = code t \<longleftrightarrow> c = t))"
  (is "(?P \<longrightarrow> ?Q) \<and> (?P' \<longrightarrow> ?Q') \<and> ?U")
proof (intro conjI)
  define d where "d = getDistanceFromLatLonInKm (latitude c) (longitude c)
                         (latitude t) (longitude t)"
  have same: "c = t \<Longrightarrow> d = 0" by (simp add: d_def distance_same)
  have uniq: "distinct (map code countries) \<Longrightarrow> c \<in> set countries \<Longrightarrow> t \<in> set countries
      \<Longrightarrow> code c = code t \<Longrightarrow> d = 0"
    using unique_code_same_entry[of countries c t] same by simp
  show "?P \<longrightarrow> ?Q"
  proof
    assume h: ?P
    then have eq: "submitGuess countries sel s =
      (let s1 = s\<lparr>guesses := \<lparr>country = c, distance = getDistanceFromLatLonInKm (latitude c)
                     (longitude c) (latitude t) (longitude t)\<rparr> # guesses s,
                  inputValue := [], showSuggestions := False, error := []\<rparr>
       in if code c = code t
          then s1\<lparr>win := True, roundOver := True,
                roundResults := roundResults s @
                  [\<lparr>result_country = t, result_guesses = Suc (length (guesses s)), won = True\<rparr>]\<rparr>
          else s1)"
      by (intro submitGuess_accepted) simp_all
    show ?Q using h same uniq by (auto simp add: eq Let_def d_def)
  qed
  show "?P' \<longrightarrow> ?Q'"
  proof
    assume h: ?P'
    then have eq: "submitGuess_game countries sel g =
      (let s1 = g\<lparr>guesses := \<lparr>country = c, distance = getDistanceFromLatLonInKm (latitude c)
                     (longitude c) (latitude t) (longitude t),
                   direction = getDirection (latitude c) (longitude c) (latitude t) (longitude t)\<rparr>
                   # guesses g,
                  inputValue := [], showSuggestions := False, error := []\<rparr>
       in if code c = code t then s1\<lparr>win := True, gameOver := True\<rparr> else s1)"
      by (intro submitGuess_game_accepted) simp_all
    show ?Q' using h same uniq by (auto simp add: eq Let_def d_def)
  qed
  show ?U using unique_code_same_entry[of countries c t] by blast
qed

text \<open>The theorem at the guess of France in a fresh round and game whose target is France.\<close>

theorem guess_wins_iff_target_code_witness:
  "targetCountry demo_round = Some france \<and> \<not> roundOver demo_round \<and> \<not> win demo_round
   \<and> guessedCountry [france, germany] (Some france) (inputValue demo_round) = Some france
   \<and> \<not> alreadyGuessed (guesses demo_round) france
   \<and> targetCountry demo_game = Some france \<and> \<not> gameOver demo_game \<and> \<not> win demo_game
   \<and> guessedCountry [france, germany] (Some france) (inputValue demo_game) = Some france
   \<and> \<not> alreadyGuessed (guesses demo_game) france
   \<and> distinct (map code [france, germany]) \<and> france \<in> set [france, germany]
   \<and> guesses (submitGuess [france, germany] (Some france) demo_round) =
        [\<lparr>country = france, distance = 0\<rparr>]
   \<and> roundOver (submitGuess [france, germany] (Some france) demo_round)
   \<and> win (submitGuess [france, germany] (Some france) demo_round)
   \<and> gameOver (submitGuess_game [france, germany] (Some france) demo_game)
   \<and> win (submitGuess_game [france, germany] (Some france) demo_game)"
proof -
  have h: "targetCountry demo_round = Some france" "\<not> roundOver demo_round" "\<not> win demo_round"
    "guessedCountry [france, germany] (Some france) (inputValue demo_round) = Some france"
    "\<not> alreadyGuessed (guesses demo_round) france"
    "targetCountry demo_game = Some france" "\<not> gameOver demo_game" "\<not> win demo_game"
    "guessedCountry [france, germany] (Some france) (inputValue demo_game) = Some france"
    "\<not> alreadyGuessed (guesses demo_game) france"
    "guesses demo_round = []"
    by (simp_all add: demo_round_def demo_game_def initialSession_def initialGame_def
        guessedCountry_def alreadyGuessed_def)
  have k: "distinct (map code [france, germany])" "france \<in> set [france, germany]"
    by (simp_all add: france_def germany_def)
  show ?thesis
    using guess_wins_iff_target_code[of demo_round france "[france, germany]" "Some france"
        france demo_game] h k
    by (simp add: distance_same)
qed

text \<open>
  Claim C1 as stated fails when two table entries with different codes share their
  coordinates: in a round whose target is the first, typing the name of the second
  records a guess at distance 0, and the round is neither over nor won.
\<close>

theorem distance_zero_without_win_counterexample:
  "distinct (map code [entry_a, entry_b])
   \<and> run [entry_a, entry_b] initialSession
        [StartGame (Some daily) 1 0 [], TypeInput ''beta'', SubmitGuess None] =
      Some (initialSession\<lparr>targetCountry := Some entry_a,
              guesses := [\<lparr>country = entry_b, distance = 0\<rparr>],
              gameMode := Some daily, totalRounds := 1, gameScreen := screen_playing\<rparr>)
   \<and> code entry_b \<noteq> code entry_a
   \<and> \<not> roundOver (initialSession\<lparr>targetCountry := Some entry_a,
              guesses := [\<lparr>country = entry_b, distance = 0\<rparr>],
              gameMode := Some daily, totalRounds := 1, gameScreen := screen_playing\<rparr>)
   \<and> \<not> win (initialSession\<lparr>targetCountry := Some entry_a,
              guesses := [\<lparr>country = entry_b, distance = 0\<rparr>],
              gameMode := Some daily, totalRounds := 1, gameScreen := screen_playing\<rparr>)"
  by (simp add: startGame_def startNewRound_def submitGuess_def guessedCountry_def
      alreadyGuessed_def setInputValue_def getTodaysCountry_def daysSinceEpoch_def
      js_rem_int_def lookup_def initialSession_def entry_a_def entry_b_def Let_def
      toLowerCase_def toLowerChar_def distance_same)

text \<open>
  Claim C3. In every state that a run of either page reaches, the codes of the guessed
  countries are pairwise distinct. In a round in progress, \<open>submitGuess\<close> with a
  candidate whose code is already among the guesses sets the duplicate message and changes
  nothing else; the guess list in particular stays as it was.
\<close>

theorem guesses_have_distinct_codes:
  "(run countries initialSession es = Some s \<longrightarrow> distinct (guessedCodes (guesses s)))
   \<and> distinct (guessedCodes (guesses (run_game countries initialGame ges)))
   \<and> (targetCountry s' = Some t \<and> \<not> roundOver s'
        \<and> guessedCountry countries sel (inputValue s') = Some c
        \<and> code c \<in> set (guessedCodes (guesses s')) \<longrightarrow>
          submitGuess countries sel s' = s'\<lparr>error := duplicateMessage\<rparr>
        \<and> guesses (submitGuess countries sel s') = guesses s')
   \<and> (targetCountry g = Some t' \<and> \<not> gameOver g
        \<and> guessedCountry countries sel' (inputValue g) = Some c'
        \<and> code c' \<in> set (guessedCodes (guesses g)) \<longrightarrow>
          submitGuess_game countries sel' g = g\<lparr>error := duplicateMessage\<rparr>
        \<and> guesses (submitGuess_game countries sel' g) = guesses g)"
proof -
  have a: "run countries initialSession es = Some s \<longrightarrow> distinct (guessedCodes (guesses s))"
    using run_inv[OF initial_inv, of countries es s] by (simp add: round_inv_def)
  have b: "distinct (guessedCodes (guesses (run_game countries initialGame ges)))"
    using run_game_inv[OF initial_game_inv, of countries ges] by (simp add: game_inv_def)
  have c: "targetCountry s' = Some t \<and> \<not> roundOver s'
        \<and> guessedCountry countries sel (inputValue s') = Some c
        \<and> code c \<in> set (guessedCodes (guesses s')) \<longrightarrow>
          submitGuess countries sel s' = s'\<lparr>error := duplicateMessage\<rparr>"
    using submitGuess_duplicate[of s' t countries sel c] by (simp add: alreadyGuessed_iff)
  have d: "targetCountry g = Some t' \<and> \<not> gameOver g
        \<and> guessedCountry countries sel' (inputValue g) = Some c'
        \<and> code c' \<in> set (guessedCodes (guesses g)) \<longrightarrow>
          submitGuess_game countries sel' g = g\<lparr>error := duplicateMessage\<rparr>"
    using submitGuess_game_duplicate[of g t' countries sel' c'] by (simp add: alreadyGuessed_iff)
  show ?thesis using a b c d by simp
qed

text \<open>
  The theorem at the run that starts the daily round with target France and guesses
  Germany, and at a second guess of Germany after it, on both pages.
\<close>

theorem guesses_have_distinct_codes_witness:
  "run [france, germany] initialSession
     [StartGame (Some daily) 1 0 [], SubmitGuess (Some germany)] =
     Some (demo_round\<lparr>guesses :=
             [\<lparr>country = germany, distance = getDistanceFromLatLonInKm 51 9 46 2\<rparr>]\<rparr>)
   \<and> targetCountry (demo_round\<lparr>guesses :=
             [\<lparr>country = germany, distance = getDistanceFromLatLonInKm 51 9 46 2\<rparr>]\<rparr>) =
       Some france
   \<and> \<not> roundOver (demo_round\<lparr>guesses :=
             [\<lparr>country = germany, distance = getDistanceFromLatLonInKm 51 9 46 2\<rparr>]\<rparr>)
   \<and> code germany \<in> set (guessedCodes
        [\<lparr>country = germany, distance = getDistanceFromLatLonInKm 51 9 46 2\<rparr>])
   \<and> submitGuess [france, germany] (Some germany)
        (demo_round\<lparr>guesses :=
             [\<lparr>country = germany, distance = getDistanceFromLatLonInKm 51 9 46 2\<rparr>]\<rparr>) =
       demo_round\<lparr>guesses :=
             [\<lparr>country = germany, distance = getDistanceFromLatLonInKm 51 9 46 2\<rparr>],
           error := duplicateMessage\<rparr>
   \<and> distinct (guessedCodes
        [\<lparr>country = germany, distance = getDistanceFromLatLonInKm 51 9 46 2\<rparr>])
   \<and> targetCountry (submitGuess_game [france, germany] (Some germany) demo_game) = Some france
   \<and> \<not> gameOver (submitGuess_game [france, germany] (Some germany) demo_game)
   \<and> code germany \<in> set (guessedCodes
        (guesses (submitGuess_game [france, germany] (Some germany) demo_game)))
   \<and> submitGuess_game [france, germany] (Some germany)
        (submitGuess_game [france, germany] (Some germany) demo_game) =
       (submitGuess_game [france, germany] (Some germany) demo_game)
         \<lparr>error := duplicateMessage\<rparr>"
proof -
  define S where "S = demo_round\<lparr>guesses :=
             [\<lparr>country = germany, distance = getDistanceFromLatLonInKm 51 9 46 2\<rparr>]\<rparr>"
  define G where "G = submitGuess_game [france, germany] (Some germany) demo_game"
  have r: "run [france, germany] initialSession
     [StartGame (Some daily) 1 0 [], SubmitGuess (Some germany)] = Some S"
    by (simp add: S_def startGame_def startNewRound_def getTodaysCountry_def daysSinceEpoch_def
      js_rem_int_def lookup_def initialSession_def demo_round_def submitGuess_def
      guessedCountry_def alreadyGuessed_def Let_def france_def germany_def)
  have s: "targetCountry S = Some france" "\<not> roundOver S"
    "guessedCountry [france, germany] (Some germany) (inputValue S) = Some germany"
    "code germany \<in> set (guessedCodes (guesses S))" "guesses S =
       [\<lparr>country = germany, distance = getDistanceFromLatLonInKm 51 9 46 2\<rparr>]"
    by (simp_all add: S_def demo_round_facts guessedCountry_def guessedCodes_def)
  have g: "targetCountry G = Some france" "\<not> gameOver G"
    "guessedCountry [france, germany] (Some germany) (inputValue G) = Some germany"
    "code germany \<in> set (guessedCodes (guesses G))"
    by (simp_all add: G_def submitGuess_game_def guessedCountry_def alreadyGuessed_def
        demo_game_facts Let_def guessedCodes_def france_def germany_def)
  show ?thesis
    using guesses_have_distinct_codes[of "[france, germany]"
        "[StartGame (Some daily) 1 0 [], SubmitGuess (Some germany)]" S "[]" S france
        "Some germany" germany G france "Some germany" germany] r s g
    unfolding S_def[symmetric] G_def[symmetric]
    by simp
qed

text \<open>
  Claim C6. A typed name is resolved to the first table entry whose name equals it after
  both are put in lower case. In a round in progress, \<open>submitGuess\<close> without a selected
  country sets the not-found message exactly when no table entry matches the typed text;
  it then changes nothing but the message: the guesses, the terminal flag, the win flag
  and the round results stay as they were. The same holds on the single-game page.
\<close>

theorem unknown_name_is_not_found:
  "guessedCountry countries None typed =
     find (\<lambda>c. toLowerCase (name c) = toLowerCase typed) countries
   \<and> (targetCountry s = Some t \<and> \<not> roundOver s \<longrightarrow>
        (error (submitGuess countries None s) = notFoundMessage \<longleftrightarrow>
           (\<forall>c\<in>set countries. toLowerCase (name c) \<noteq> toLowerCase (inputValue s))))
   \<and> (targetCountry s = Some t \<and> \<not> roundOver s
        \<and> (\<forall>c\<in>set countries. toLowerCase (name c) \<noteq> toLowerCase (inputValue s)) \<longrightarrow>
          submitGuess countries None s = s\<lparr>error := notFoundMessage\<rparr>
        \<and> guesses (submitGuess countries None s) = guesses s
        \<and> roundOver (submitGuess countries None s) = roundOver s
        \<and> win (submitGuess countries None s) = win s
        \<and> roundResults (submitGuess countries None s) = roundResults s)
   \<and> (targetCountry g = Some t' \<and> \<not> gameOver g \<longrightarrow>
        (error (submitGuess_game countries None g) = notFoundMessage \<longleftrightarrow>
           (\<forall>c\<in>set countries. toLowerCase (name c) \<noteq> toLowerCase (inputValue g))))
   \<and> (targetCountry g = Some t' \<and> \<not> gameOver g
        \<and> (\<forall>c\<in>set countries. toLowerCase (name c) \<noteq> toLowerCase (inputValue g)) \<longrightarrow>
          submitGuess_game countries None g = g\<lparr>error := notFoundMessage\<rparr>
        \<and> guesses (submitGuess_game countries None g) = guesses g
        \<and> gameOver (submitGuess_game countries None g) = gameOver g
        \<and> win (submitGuess_game countries None g) = win g)"
proof -
  have a: "guessedCountry countries None typed =
     find (\<lambda>c. toLowerCase (name c) = toLowerCase typed) countries"
    by (rule guessedCountry_typed)
  have b: "targetCountry s = Some t \<and> \<not> roundOver s \<longrightarrow>
        (error (submitGuess countries None s) = notFoundMessage \<longleftrightarrow>
           (\<forall>c\<in>set countries. toLowerCase (name c) \<noteq> toLowerCase (inputValue s)))"
    by (simp add: submitGuess_error_not_found guessedCountry_none_iff)
  have c: "targetCountry s = Some t \<and> \<not> roundOver s
        \<and> (\<forall>c\<in>set countries. toLowerCase (name c) \<noteq> toLowerCase (inputValue s)) \<longrightarrow>
          submitGuess countries None s = s\<lparr>error := notFoundMessage\<rparr>"
    using submitGuess_not_found[of s t countries None] by (simp add: guessedCountry_none_iff)
  have d: "targetCountry g = Some t' \<and> \<not> gameOver g \<longrightarrow>
        (error (submitGuess_game countries None g) = notFoundMessage \<longleftrightarrow>
           (\<forall>c\<in>set countries. toLowerCase (name c) \<noteq> toLowerCase (inputValue g)))"
    by (simp add: submitGuess_game_error_not_found guessedCountry_none_iff)
  have e: "targetCountry g = Some t' \<and> \<not> gameOver g
        \<and> (\<forall>c\<in>set countries. toLowerCase (name c) \<noteq> toLowerCase (inputValue g)) \<longrightarrow>
          submitGuess_game countries None g = g\<lparr>error := notFoundMessage\<rparr>"
    using submitGuess_game_not_found[of g t' countries None]
    by (simp add: guessedCountry_none_iff)
  show ?thesis using a b c d e by simp
qed

text \<open>
  The theorem at the typed text \<open>Atlantis\<close>, which no entry of the example table matches;
  \<open>GERMANY\<close> in capitals resolves to Germany.
\<close>

theorem unknown_name_is_not_found_witness:
  "guessedCountry [france, germany] None ''GERMANY'' = Some germany
   \<and> targetCountry (demo_round\<lparr>inputValue := ''Atlantis''\<rparr>) = Some france
   \<and> \<not> roundOver (demo_round\<lparr>inputValue := ''Atlantis''\<rparr>)
   \<and> toLowerCase (name france) \<noteq> toLowerCase ''Atlantis''
   \<and> toLowerCase (name germany) \<noteq> toLowerCase ''Atlantis''
   \<and> targetCountry (demo_game\<lparr>inputValue := ''Atlantis''\<rparr>) = Some france
   \<and> \<not> gameOver (demo_game\<lparr>inputValue := ''Atlantis''\<rparr>)
   \<and> submitGuess [france, germany] None (demo_round\<lparr>inputValue := ''Atlantis''\<rparr>) =
        demo_round\<lparr>inputValue := ''Atlantis'', error := notFoundMessage\<rparr>
   \<and> guesses (submitGuess [france, germany] None (demo_round\<lparr>inputValue := ''Atlantis''\<rparr>)) = []
   \<and> submitGuess_game [france, germany] None (demo_game\<lparr>inputValue := ''Atlantis''\<rparr>) =
        demo_game\<lparr>inputValue := ''Atlantis'', error := notFoundMessage\<rparr>"
proof -
  have n: "\<forall>c\<in>set [france, germany]. toLowerCase (name c) \<noteq> toLowerCase ''Atlantis''"
    by (simp add: france_def germany_def toLowerCase_def toLowerChar_def)
  have f: "find (\<lambda>c. toLowerCase (name c) = toLowerCase ''GERMANY'') [france, germany] =
             Some germany"
    by (simp add: france_def germany_def toLowerCase_def toLowerChar_def)
  show ?thesis
    using unknown_name_is_not_found[of "[france, germany]" "''GERMANY''"
        "demo_round\<lparr>inputValue := ''Atlantis''\<rparr>" france
        "demo_game\<lparr>inputValue := ''Atlantis''\<rparr>" france] n f
    by (simp add: demo_round_facts demo_game_facts)
qed

text \<open>
  Claim C7. Once a round is over, \<open>submitGuess\<close> and \<open>skipRound\<close> return the state as it
  is, so the guesses, both flags and the round results are unchanged, and so does every
  sequence of guesses and skips. On the single-game page the same holds for
  \<open>submitGuess\<close> once the game is over.
\<close>

theorem terminal_round_is_frozen:
  "(roundOver s \<longrightarrow> submitGuess countries sel s = s \<and> skipRound s = s)
   \<and> (roundOver s \<and> list_all guess_or_skip es \<longrightarrow> run countries s es = Some s)
   \<and> (gameOver g \<longrightarrow> submitGuess_game countries sel g = g)
   \<and> (gameOver g \<and> list_all is_guess ges \<longrightarrow> run_game countries g ges = g)"
  using submitGuess_terminal[of s countries sel] skipRound_terminal[of s]
    terminal_run[of s es countries] submitGuess_game_terminal[of g countries sel]
    terminal_run_game[of g ges countries]
  by blast

text \<open>The theorem at a skipped round and at a game won by its first guess.\<close>

theorem terminal_round_is_frozen_witness:
  "roundOver (skipRound demo_round)
   \<and> list_all guess_or_skip [SubmitGuess (Some germany), SkipRound, SubmitGuess None]
   \<and> gameOver (submitGuess_game [france, germany] (Some france) demo_game)
   \<and> list_all is_guess [GuessEvent (Some germany), GuessEvent None]
   \<and> submitGuess [france, germany] (Some germany) (skipRound demo_round) = skipRound demo_round
   \<and> skipRound (skipRound demo_round) = skipRound demo_round
   \<and> run [france, germany] (skipRound demo_round)
        [SubmitGuess (Some germany), SkipRound, SubmitGuess None] = Some (skipRound demo_round)
   \<and> run_game [france, germany] (submitGuess_game [france, germany] (Some france) demo_game)
        [GuessEvent (Some germany), GuessEvent None] =
      submitGuess_game [france, germany] (Some france) demo_game"
proof -
  have r: "roundOver (skipRound demo_round)"
    by (simp add: skipRound_def demo_round_facts)
  have g: "gameOver (submitGuess_game [france, germany] (Some france) demo_game)"
    by (simp add: submitGuess_game_def guessedCountry_def alreadyGuessed_def demo_game_facts
        Let_def)
  show ?thesis
    using terminal_round_is_frozen[of "skipRound demo_round" "[france, germany]" "Some germany"
        "[SubmitGuess (Some germany), SkipRound, SubmitGuess None]"
        "submitGuess_game [france, germany] (Some france) demo_game"
        "[GuessEvent (Some germany), GuessEvent None]"] r g
    by (simp del: run.simps)
qed

text \<open>
  Claim C10. In a reachable state with a target and a round that is not over, \<open>skipRound\<close>
  sets the round over, leaves it not won, leaves the guess list as it is, and appends the
  round result with the target, zero guesses and \<open>won = false\<close>; nothing else changes.
\<close>

theorem skip_loses_round_without_guess:
  assumes "run countries initialSession es = Some s"
    and "targetCountry s = Some t" and "\<not> roundOver s"
  shows "skipRound s =
           s\<lparr>roundOver := True,
             roundResults := roundResults s @
               [\<lparr>result_country = t, result_guesses = 0, won = False\<rparr>]\<rparr>
       \<and> roundOver (skipRound s) \<and> \<not> win (skipRound s)
       \<and> guesses (skipRound s) = guesses s
       \<and> last (roundResults (skipRound s)) =
           \<lparr>result_country = t, result_guesses = 0, won = False\<rparr>"
proof -
  have "round_inv s" using run_inv[OF initial_inv assms(1)] .
  with assms(3) have nw: "\<not> win s" by (simp add: round_inv_def)
  have sk: "skipRound s =
           s\<lparr>roundOver := True,
             roundResults := roundResults s @
               [\<lparr>result_country = t, result_guesses = 0, won = False\<rparr>]\<rparr>"
    using assms(2,3) by (simp add: skipRound_def)
  show ?thesis using nw by (simp add: sk)
qed

text \<open>The theorem at the daily round with target France, right after its start.\<close>

theorem skip_loses_round_without_guess_witness:
  "run [france, germany] initialSession [StartGame (Some daily) 1 0 []] = Some demo_round
   \<and> targetCountry demo_round = Some france \<and> \<not> roundOver demo_round
   \<and> roundOver (skipRound demo_round) \<and> \<not> win (skipRound demo_round)
   \<and> guesses (skipRound demo_round) = []
   \<and> roundResults (skipRound demo_round) =
        [\<lparr>result_country = france, result_guesses = 0, won = False\<rparr>]"
  using skip_loses_round_without_guess[OF demo_round_run demo_round_facts(1,2)]
    demo_round_run demo_round_facts
  by simp

section \<open>The daily target\<close>









section \<open>Session statistics\<close>

lemma foldl_guess_sum:
  "foldl (\<lambda>sum r. sum + result_guesses r) a rs = a + sum_list (map result_guesses rs)"
  by (induction rs arbitrary: a) simp_all

lemma toFixed1_close:
  assumes "0 \<le> x"
  shows "\<bar>real_of_int (toFixed1 x) / 10 - x\<bar> \<le> 1 / 20"
proof -
  define f where "f = \<lfloor>10 * x + 1 / 2\<rfloor>"
  have t: "toFixed1 x = f" using assms by (simp add: toFixed1_def f_def)
  have "real_of_int f \<le> 10 * x + 1 / 2" unfolding f_def by (rule of_int_floor_le)
  moreover have "10 * x + 1 / 2 < real_of_int f + 1" unfolding f_def by linarith
  ultimately have "- (1 / 2) \<le> real_of_int f - 10 * x \<and> real_of_int f - 10 * x \<le> 1 / 2"
    by simp
  then show ?thesis unfolding t by (simp add: abs_le_iff) argo
qed

lemma calculateAverageScore_none:
  "\<forall>r\<in>set results. \<not> won r \<Longrightarrow> calculateAverageScore results = Number 0"
  by (simp add: calculateAverageScore_def filter_empty_conv)

lemma calculateAverageScore_some:
  assumes "\<exists>r\<in>set results. won r"
  shows "calculateAverageScore results =
           Tenths (toFixed1 (real (sum_list (map result_guesses (filter won results))) /
                             real (wonRounds results)))"
proof -
  from assms have "filter won results \<noteq> []" by (simp add: filter_empty_conv)
  then show ?thesis by (simp add: calculateAverageScore_def Let_def foldl_guess_sum wonRounds_def)
qed

text \<open>
  Claim C9. The win count is the number of rounds that were won. The average score is the
  number 0 when no round was won; otherwise it is the mean of the guess counts of the won
  rounds, shown with one decimal (\<open>toFixed(1)\<close>), which is within 0.05 of the mean. Rounds
  that were not won do not change it. For a session won in 2 guesses, skipped, and won in
  4 guesses, the win count is 2 and the average is shown as 3.0.
\<close>

theorem session_statistics:
  "wonRounds results = card {i. i < length results \<and> won (results ! i)}
   \<and> ((\<forall>r\<in>set results. \<not> won r) \<longrightarrow> calculateAverageScore results = Number 0)
   \<and> ((\<exists>r\<in>set results. won r) \<longrightarrow>
        calculateAverageScore results =
          Tenths (toFixed1 (real (sum_list (map result_guesses (filter won results))) /
                            real (wonRounds results)))
      \<and> \<bar>scoreValue (calculateAverageScore results) -
           real (sum_list (map result_guesses (filter won results))) / real (wonRounds results)\<bar>
          \<le> 1 / 20)
   \<and> calculateAverageScore (filter won results) = calculateAverageScore results
   \<and> wonRounds [\<lparr>result_country = c1, result_guesses = 2, won = True\<rparr>,
                \<lparr>result_country = c2, result_guesses = 0, won = False\<rparr>,
                \<lparr>result_country = c3, result_guesses = 4, won = True\<rparr>] = 2
   \<and> calculateAverageScore [\<lparr>result_country = c1, result_guesses = 2, won = True\<rparr>,
                \<lparr>result_country = c2, result_guesses = 0, won = False\<rparr>,
                \<lparr>result_country = c3, result_guesses = 4, won = True\<rparr>] = Tenths 30"
proof -
  have a: "wonRounds results = card {i. i < length results \<and> won (results ! i)}"
    by (simp add: wonRounds_def length_filter_conv_card)
  have b: "(\<forall>r\<in>set results. \<not> won r) \<longrightarrow> calculateAverageScore results = Number 0"
    using calculateAverageScore_none by blast
  have c: "(\<exists>r\<in>set results. won r) \<longrightarrow>
        calculateAverageScore results =
          Tenths (toFixed1 (real (sum_list (map result_guesses (filter won results))) /
                            real (wonRounds results)))"
    using calculateAverageScore_some by blast
  have d: "(\<exists>r\<in>set results. won r) \<longrightarrow>
       \<bar>scoreValue (calculateAverageScore results) -
           real (sum_list (map result_guesses (filter won results))) / real (wonRounds results)\<bar>
          \<le> 1 / 20"
  proof
    assume w: "\<exists>r\<in>set results. won r"
    have "0 \<le> real (sum_list (map result_guesses (filter won results))) / real (wonRounds results)"
      by simp
    from toFixed1_close[OF this] show "\<bar>scoreValue (calculateAverageScore results) -
           real (sum_list (map result_guesses (filter won results))) / real (wonRounds results)\<bar>
          \<le> 1 / 20"
      by (simp add: calculateAverageScore_some[OF w])
  qed
  have e: "calculateAverageScore (filter won results) = calculateAverageScore results"
    by (simp add: calculateAverageScore_def)
  have f: "wonRounds [\<lparr>result_country = c1, result_guesses = 2, won = True\<rparr>,
                \<lparr>result_country = c2, result_guesses = 0, won = False\<rparr>,
                \<lparr>result_country = c3, result_guesses = 4, won = True\<rparr>] = 2"
    by (simp add: wonRounds_def)
  have g: "calculateAverageScore [\<lparr>result_country = c1, result_guesses = 2, won = True\<rparr>,
                \<lparr>result_country = c2, result_guesses = 0, won = False\<rparr>,
                \<lparr>result_country = c3, result_guesses = 4, won = True\<rparr>] = Tenths 30"
    by (simp add: calculateAverageScore_def toFixed1_def)
  show ?thesis using a b c d e f g by blast
qed

text \<open>The theorem at the session of the example, and at a session with one skipped round.\<close>

theorem session_statistics_witness:
  "won \<lparr>result_country = france, result_guesses = 2, won = True\<rparr>
   \<and> wonRounds [\<lparr>result_country = france, result_guesses = 2, won = True\<rparr>,
             \<lparr>result_country = germany, result_guesses = 0, won = False\<rparr>,
             \<lparr>result_country = france, result_guesses = 4, won = True\<rparr>] = 2
   \<and> calculateAverageScore [\<lparr>result_country = france, result_guesses = 2, won = True\<rparr>,
             \<lparr>result_country = germany, result_guesses = 0, won = False\<rparr>,
             \<lparr>result_country = france, result_guesses = 4, won = True\<rparr>] = Tenths 30
   \<and> scoreValue (Tenths 30) = 3
   \<and> \<not> won \<lparr>result_country = germany, result_guesses = 0, won = False\<rparr>
   \<and> calculateAverageScore [\<lparr>result_country = germany, result_guesses = 0, won = False\<rparr>] =
       Number 0"
  using session_statistics[of "[\<lparr>result_country = france, result_guesses = 2, won = True\<rparr>,
             \<lparr>result_country = germany, result_guesses = 0, won = False\<rparr>,
             \<lparr>result_country = france, result_guesses = 4, won = True\<rparr>]" france germany france]
    session_statistics[of "[\<lparr>result_country = germany, result_guesses = 0, won = False\<rparr>]"]
  by simp

end
